theory Spec2Isabelle
  imports Main
begin

section \<open>The page-split stage: \<open>filters/page_split/Task.cpp\<close>\<close>

text \<open>
  \<open>Task::process\<close> decides whether a scanned image holds one page or two, reusing the
  layout stored for the page when its dependencies still match, asking
  \<open>PageSplitFinder::findSplitLine\<close> otherwise, and hands the layout to the next stage or
  to a \<open>UiUpdater\<close>.

  Only \<open>Task.cpp\<close> is part of the sources. The classes it uses (\<open>QImage\<close>,
  \<open>OrthogonalRotation\<close>, \<open>BinaryThreshold\<close>, \<open>Dependencies\<close>, the geometry inside a
  \<open>PageLayout\<close>, the results of the other stages) are type parameters
  \<open>'i\<close>, \<open>'r\<close>, \<open>'t\<close>, \<open>'d\<close>, \<open>'g\<close>, \<open>'o\<close>, and the functions it calls on them are the fields of
  a record of collaborators.
\<close>

subsection \<open>Data\<close>

text \<open>The one exception \<open>process\<close> deals in: what \<open>TaskStatus::throwIfCancelled\<close> throws.\<close>

datatype error = Cancelled

text \<open>\<open>ImageId\<close>, the key of the settings and of the page sequence.\<close>

type_synonym image_id = nat

text \<open>\<open>Rule::LayoutType\<close> and the \<open>Rule\<close> that carries it.\<close>

datatype layout_type = Rule_AUTO_DETECT | Rule_SINGLE_PAGE | Rule_TWO_PAGES

datatype rule = Rule (layoutType: layout_type)

text \<open>The enumeration \<open>AutoDetectedLayout\<close>.\<close>

datatype auto_detected_layout = SINGLE_PAGE | TWO_PAGES

datatype auto_manual_mode = MODE_AUTO | MODE_MANUAL

text \<open>
  Modelled from the spec: \<open>PageLayout.h\<close> is not part of the sources. A \<open>PageLayout\<close> is
  "the computed split geometry" and "has a distinguished null/unset value", which is what
  the default constructor in \<open>PageLayout layout;\<close> gives. The number of sub-pages of a
  layout is computed by \<open>PageLayout::numSubPages\<close>, a collaborator below.
\<close>

datatype 'g page_layout = NullLayout | SplitLayout 'g

fun isNull :: "'g page_layout \<Rightarrow> bool" where
  "isNull NullLayout = True"
| "isNull (SplitLayout g) = False"

text \<open>\<open>Params\<close>, built by \<open>Params(layout, deps, mode)\<close> and read by its three accessors.\<close>

datatype ('d, 'g) params =
  Params (pageLayout: "'g page_layout") (dependencies: 'd) (mode: auto_manual_mode)

text \<open>
  \<open>OptionsWidget::UiData\<close>. A field is \<open>None\<close> as long as its setter has not been called
  (it then holds whatever the constructor of \<open>UiData\<close> put there).
\<close>

record ('d, 'g) ui_data =
  ui_autoDetectedLayout :: "auto_detected_layout option"
  ui_dependencies :: "'d option"
  ui_pageLayout :: "'g page_layout option"
  ui_mode :: "auto_manual_mode option"

definition new_UiData :: "('d, 'g) ui_data" where
  "new_UiData =
     \<lparr>ui_autoDetectedLayout = None, ui_dependencies = None,
      ui_pageLayout = None, ui_mode = None\<rparr>"

text \<open>\<open>ImageMetadata(size, dpm)\<close>: a \<open>QSize\<close> and a \<open>Dpm\<close>, two integers each.\<close>

datatype image_metadata = ImageMetadata "int \<times> int" "int \<times> int"

text \<open>
  \<open>ImageTransformation\<close>, of which \<open>process\<close> reads \<open>preRotation()\<close>, and \<open>FilterData\<close>
  with its accessors \<open>image()\<close>, \<open>xform()\<close> and \<open>bwThreshold()\<close>.
\<close>

record 'r image_transformation =
  preRotation :: 'r

record ('i, 'r, 't) filter_data =
  image_fd :: 'i
  xform :: "'r image_transformation"
  bwThreshold :: 't

text \<open>
  \<open>TaskStatus\<close>. The cancellation flag is set from another thread, so each of the two
  calls of \<open>throwIfCancelled\<close> in \<open>process\<close> has its own reading of it:
  \<open>cancelled_at_entry\<close> is what the call at the top of \<open>process\<close> sees, and
  \<open>cancelled_after_find\<close> what the call after \<open>findSplitLine\<close> and \<open>setPageParams\<close> sees.
\<close>

record task_status =
  cancelled_at_entry :: bool
  cancelled_after_find :: bool

definition throwIfCancelled :: "bool \<Rightarrow> error + unit" where
  "throwIfCancelled cancelled = (if cancelled then Inl Cancelled else Inr ())"

text \<open>
  What \<open>process\<close> returns, a \<open>FilterResultPtr\<close>: the \<open>UiUpdater\<close> of this stage
  (whether debug images are attached, the image, its transformation, the UI data), or a
  result of another stage.
\<close>

datatype ('i, 'r, 'd, 'g, 'o) filter_result =
    UiUpdater bool 'i "'r image_transformation" "('d, 'g) ui_data"
  | OtherResult 'o

text \<open>
  The calls \<open>process\<close> makes that change something outside it, or that the claims
  count. They are logged in the order they are made, so that "is called exactly once" and
  "is not called" can be stated.
\<close>

datatype ('d, 'g) event =
    EvFindSplitLine bool
  | EvSetPageParams image_id "('d, 'g) params"
  | EvSetLogicalPagesInImage image_id int
  | EvNextTaskProcess "'g page_layout"
  | EvNewUiUpdater "('d, 'g) ui_data"

text \<open>
  Modelled from the spec: \<open>Settings.h\<close> and \<open>PageSequence.h\<close> are not part of the
  sources. The objects shared between invocations are the \<open>Settings\<close> of this stage,
  which "maps a page identity to its last-computed layout decision plus the fingerprint
  and mode" and gives the rule of each page, and the \<open>PageSequence\<close> with its "mutable
  shared counter, per page, of logical pages in this image". The log of calls is kept
  with them.
\<close>

record ('d, 'g) world =
  rules :: "image_id \<Rightarrow> rule"
  page_params :: "image_id \<rightharpoonup> ('d, 'g) params"
  logical_pages :: "image_id \<rightharpoonup> int"
  calls :: "('d, 'g) event list"

text \<open>
  Modelled from the spec: \<open>Settings::getRuleFor\<close> and \<open>Settings::getPageParams\<close>
  ("absent if never computed") read the settings and change nothing.
\<close>

definition getRuleFor :: "('d, 'g) world \<Rightarrow> image_id \<Rightarrow> rule" where
  "getRuleFor w image_id = rules w image_id"

definition getPageParams :: "('d, 'g) world \<Rightarrow> image_id \<Rightarrow> ('d, 'g) params option" where
  "getPageParams w image_id = page_params w image_id"

text \<open>
  Modelled from the spec: \<open>Settings::setPageParams\<close> "overwrites unconditionally; no
  merge semantics".
\<close>

definition setPageParams ::
  "image_id \<Rightarrow> ('d, 'g) params \<Rightarrow> ('d, 'g) world \<Rightarrow> ('d, 'g) world" where
  "setPageParams image_id new_params w =
     w\<lparr>page_params := (page_params w)(image_id \<mapsto> new_params),
       calls := calls w @ [EvSetPageParams image_id new_params]\<rparr>"

text \<open>
  Modelled from the spec: \<open>PageSequence::setLogicalPagesInImage\<close> sets "the
  PageSequence's recorded logical-page-count for this identity".
\<close>

definition setLogicalPagesInImage ::
  "image_id \<Rightarrow> int \<Rightarrow> ('d, 'g) world \<Rightarrow> ('d, 'g) world" where
  "setLogicalPagesInImage image_id n w =
     w\<lparr>logical_pages := (logical_pages w)(image_id \<mapsto> n),
       calls := calls w @ [EvSetLogicalPagesInImage image_id n]\<rparr>"

text \<open>A call that changes nothing in the shared objects is only logged.\<close>

definition log_call :: "('d, 'g) event \<Rightarrow> ('d, 'g) world \<Rightarrow> ('d, 'g) world" where
  "log_call e w = w\<lparr>calls := calls w @ [e]\<rparr>"

text \<open>
  The functions of other classes that \<open>process\<close> calls, none of them in the sources:
  \<open>QImage::size\<close>, the constructor \<open>Dpm(QImage)\<close>,
  \<open>PageSequence::adviseNumberOfLogicalPages(metadata, pre_rotation)\<close>, the constructor
  \<open>Dependencies(image, pre_rotation, single_page)\<close>, \<open>deps.matches(other, mode)\<close> with
  the receiver first, \<open>PageSplitFinder::findSplitLine(image, pre_rotation, bw_threshold,
  single_page, dbg)\<close> with the debug sink reduced to whether there is one, and
  \<open>PageLayout::numSubPages\<close>.
\<close>

record ('i, 'r, 't, 'd, 'g) collaborators =
  image_size :: "'i \<Rightarrow> int \<times> int"
  image_dpm :: "'i \<Rightarrow> int \<times> int"
  adviseNumberOfLogicalPages :: "image_metadata \<Rightarrow> 'r \<Rightarrow> int"
  Dependencies :: "'i \<Rightarrow> 'r \<Rightarrow> bool \<Rightarrow> 'd"
  matches :: "'d \<Rightarrow> 'd \<Rightarrow> auto_manual_mode \<Rightarrow> bool"
  findSplitLine :: "'i \<Rightarrow> 'r \<Rightarrow> 't \<Rightarrow> bool \<Rightarrow> bool \<Rightarrow> 'g page_layout"
  numSubPages :: "'g page_layout \<Rightarrow> int"

text \<open>
  The members of \<open>Task\<close>: the page it works on, the \<open>process\<close> of the next stage
  (\<open>deskew::Task\<close>, not part of the sources; \<open>None\<close> is the null pointer) and whether
  debug images are collected. The settings and the page sequence it points to are in
  the \<open>world\<close>.
\<close>

record ('i, 'r, 't, 'd, 'g, 'o) task =
  m_imageId :: image_id
  m_ptrNextTask ::
    "(task_status \<Rightarrow> ('i, 'r, 't) filter_data \<Rightarrow> 'g page_layout
        \<Rightarrow> error + ('i, 'r, 'd, 'g, 'o) filter_result) option"
  m_ptrDbg :: bool

subsection \<open>\<open>Task::process\<close>\<close>

text \<open>
  The \<open>switch\<close> on \<open>rule.layoutType()\<close>: the value of \<open>num_logical_pages\<close> after it, and
  \<open>ui_data\<close>. The variable is an \<open>int\<close>; the two fixed rules assign the \<open>bool\<close> literals
  \<open>true\<close> and \<open>false\<close> to it, which C++ converts to 1 and 0.
\<close>

definition resolve_logical_pages ::
  "('i, 'r, 't, 'd, 'g) collaborators \<Rightarrow> rule \<Rightarrow> ('i, 'r, 't) filter_data \<Rightarrow> 'r
     \<Rightarrow> ('d, 'g) ui_data \<Rightarrow> int \<times> ('d, 'g) ui_data" where
  "resolve_logical_pages env rule data pre_rotation ui_data =
     (case layoutType rule of
        Rule_AUTO_DETECT \<Rightarrow>
          (let metadata = ImageMetadata (image_size env (image_fd data))
                            (image_dpm env (image_fd data));
               num_logical_pages = adviseNumberOfLogicalPages env metadata pre_rotation
           in (num_logical_pages,
               ui_data\<lparr>ui_autoDetectedLayout :=
                 Some (if num_logical_pages = 1 then SINGLE_PAGE else TWO_PAGES)\<rparr>))
      | Rule_SINGLE_PAGE \<Rightarrow> (of_bool True, ui_data)
      | Rule_TWO_PAGES \<Rightarrow> (of_bool False, ui_data))"

text \<open>
  The lookup of the stored parameters: the local variables \<open>layout\<close> and \<open>mode\<close>
  (here \<open>cur_mode\<close>, as \<open>mode\<close> is the accessor of \<open>Params\<close>) after the
  \<open>if (params.get())\<close> block, starting from a null layout and \<open>MODE_AUTO\<close>.
\<close>

definition lookup_params ::
  "('i, 'r, 't, 'd, 'g) collaborators \<Rightarrow> 'd \<Rightarrow> ('d, 'g) params option
     \<Rightarrow> 'g page_layout \<times> auto_manual_mode" where
  "lookup_params env deps params =
     (case params of
        None \<Rightarrow> (NullLayout, MODE_AUTO)
      | Some p \<Rightarrow>
          (let cur_mode = mode p
           in if matches env deps (dependencies p) cur_mode
              then (pageLayout p, cur_mode)
              else (NullLayout, cur_mode)))"

text \<open>
  The block \<open>if (layout.isNull())\<close>: the split line is searched for, the new parameters
  are stored, and only then is cancellation checked.
\<close>

definition find_if_null ::
  "('i, 'r, 't, 'd, 'g) collaborators \<Rightarrow> ('i, 'r, 't, 'd, 'g, 'o) task \<Rightarrow> task_status
     \<Rightarrow> ('i, 'r, 't) filter_data \<Rightarrow> 'r \<Rightarrow> bool \<Rightarrow> 'd \<Rightarrow> 'g page_layout \<Rightarrow> auto_manual_mode
     \<Rightarrow> ('d, 'g) world \<Rightarrow> (error + 'g page_layout) \<times> ('d, 'g) world" where
  "find_if_null env task status data pre_rotation single_page deps layout cur_mode w =
     (if isNull layout then
        (let layout = findSplitLine env (image_fd data) pre_rotation (bwThreshold data)
                        single_page (m_ptrDbg task);
             w = log_call (EvFindSplitLine single_page) w;
             new_params = Params layout deps cur_mode;
             w = setPageParams (m_imageId task) new_params w
         in case throwIfCancelled (cancelled_after_find status) of
              Inl e \<Rightarrow> (Inl e, w)
            | Inr u \<Rightarrow> (Inr layout, w))
      else (Inr layout, w))"

text \<open>The end of \<open>process\<close>: the next stage if there is one, a new \<open>UiUpdater\<close> if not.\<close>

definition dispatch ::
  "('i, 'r, 't, 'd, 'g, 'o) task \<Rightarrow> task_status \<Rightarrow> ('i, 'r, 't) filter_data
     \<Rightarrow> 'g page_layout \<Rightarrow> ('d, 'g) ui_data \<Rightarrow> ('d, 'g) world
     \<Rightarrow> (error + ('i, 'r, 'd, 'g, 'o) filter_result) \<times> ('d, 'g) world" where
  "dispatch task status data layout ui_data w =
     (case m_ptrNextTask task of
        Some next_process \<Rightarrow>
          (next_process status data layout, log_call (EvNextTaskProcess layout) w)
      | None \<Rightarrow>
          (Inr (UiUpdater (m_ptrDbg task) (image_fd data) (xform data) ui_data),
           log_call (EvNewUiUpdater ui_data) w))"

definition process ::
  "('i, 'r, 't, 'd, 'g) collaborators \<Rightarrow> ('i, 'r, 't, 'd, 'g, 'o) task \<Rightarrow> task_status
     \<Rightarrow> ('i, 'r, 't) filter_data \<Rightarrow> ('d, 'g) world
     \<Rightarrow> (error + ('i, 'r, 'd, 'g, 'o) filter_result) \<times> ('d, 'g) world" where
  "process env task status data w =
     (case throwIfCancelled (cancelled_at_entry status) of
        Inl e \<Rightarrow> (Inl e, w)
      | Inr u \<Rightarrow>
          (let pre_rotation = preRotation (xform data);
               rule = getRuleFor w (m_imageId task);
               (num_logical_pages, ui_data) =
                 resolve_logical_pages env rule data pre_rotation new_UiData;
               single_page = (num_logical_pages = 1);
               deps = Dependencies env (image_fd data) pre_rotation single_page;
               ui_data = ui_data\<lparr>ui_dependencies := Some deps\<rparr>;
               params = getPageParams w (m_imageId task);
               (layout, cur_mode) = lookup_params env deps params
           in case find_if_null env task status data pre_rotation single_page deps
                     layout cur_mode w of
                (Inl e, w) \<Rightarrow> (Inl e, w)
              | (Inr layout, w) \<Rightarrow>
                  (let ui_data = ui_data\<lparr>ui_pageLayout := Some layout, ui_mode := Some cur_mode\<rparr>;
                       w = setLogicalPagesInImage (m_imageId task)
                             (numSubPages env layout) w
                   in dispatch task status data layout ui_data w)))"

subsection \<open>What an invocation derives from its inputs\<close>

text \<open>
  The values of the local variables of \<open>process\<close>, each as the source computes it:
  \<open>single_page\<close>, \<open>deps\<close>, then \<open>layout\<close> and \<open>mode\<close> after the lookup of the stored
  parameters, the layout \<open>findSplitLine\<close> returns for this invocation, and the layout
  that reaches the end of \<open>process\<close>.
\<close>

definition fresh_single_page ::
  "('i, 'r, 't, 'd, 'g) collaborators \<Rightarrow> ('i, 'r, 't, 'd, 'g, 'o) task
     \<Rightarrow> ('i, 'r, 't) filter_data \<Rightarrow> ('d, 'g) world \<Rightarrow> bool" where
  "fresh_single_page env task data w =
     (fst (resolve_logical_pages env (getRuleFor w (m_imageId task)) data
             (preRotation (xform data)) new_UiData) = 1)"

definition fresh_deps ::
  "('i, 'r, 't, 'd, 'g) collaborators \<Rightarrow> ('i, 'r, 't, 'd, 'g, 'o) task
     \<Rightarrow> ('i, 'r, 't) filter_data \<Rightarrow> ('d, 'g) world \<Rightarrow> 'd" where
  "fresh_deps env task data w =
     Dependencies env (image_fd data) (preRotation (xform data))
       (fresh_single_page env task data w)"

definition cached_layout ::
  "('i, 'r, 't, 'd, 'g) collaborators \<Rightarrow> ('i, 'r, 't, 'd, 'g, 'o) task
     \<Rightarrow> ('i, 'r, 't) filter_data \<Rightarrow> ('d, 'g) world \<Rightarrow> 'g page_layout" where
  "cached_layout env task data w =
     fst (lookup_params env (fresh_deps env task data w)
            (getPageParams w (m_imageId task)))"

definition carried_mode ::
  "('i, 'r, 't, 'd, 'g) collaborators \<Rightarrow> ('i, 'r, 't, 'd, 'g, 'o) task
     \<Rightarrow> ('i, 'r, 't) filter_data \<Rightarrow> ('d, 'g) world \<Rightarrow> auto_manual_mode" where
  "carried_mode env task data w =
     snd (lookup_params env (fresh_deps env task data w)
            (getPageParams w (m_imageId task)))"

definition fresh_layout ::
  "('i, 'r, 't, 'd, 'g) collaborators \<Rightarrow> ('i, 'r, 't, 'd, 'g, 'o) task
     \<Rightarrow> ('i, 'r, 't) filter_data \<Rightarrow> ('d, 'g) world \<Rightarrow> 'g page_layout" where
  "fresh_layout env task data w =
     findSplitLine env (image_fd data) (preRotation (xform data)) (bwThreshold data)
       (fresh_single_page env task data w) (m_ptrDbg task)"

definition resolved_layout ::
  "('i, 'r, 't, 'd, 'g) collaborators \<Rightarrow> ('i, 'r, 't, 'd, 'g, 'o) task
     \<Rightarrow> ('i, 'r, 't) filter_data \<Rightarrow> ('d, 'g) world \<Rightarrow> 'g page_layout" where
  "resolved_layout env task data w =
     (if isNull (cached_layout env task data w) then fresh_layout env task data w
      else cached_layout env task data w)"

text \<open>
  The UI data at the end of \<open>process\<close>, after its four setters, and the shared objects
  after the block \<open>if (layout.isNull())\<close> has been entered and has stored its result.
\<close>

definition resolved_ui_data ::
  "('i, 'r, 't, 'd, 'g) collaborators \<Rightarrow> ('i, 'r, 't, 'd, 'g, 'o) task
     \<Rightarrow> ('i, 'r, 't) filter_data \<Rightarrow> ('d, 'g) world \<Rightarrow> ('d, 'g) ui_data" where
  "resolved_ui_data env task data w =
     (snd (resolve_logical_pages env (getRuleFor w (m_imageId task)) data
             (preRotation (xform data)) new_UiData))
       \<lparr>ui_dependencies := Some (fresh_deps env task data w),
        ui_pageLayout := Some (resolved_layout env task data w),
        ui_mode := Some (carried_mode env task data w)\<rparr>"

definition after_find ::
  "('i, 'r, 't, 'd, 'g) collaborators \<Rightarrow> ('i, 'r, 't, 'd, 'g, 'o) task
     \<Rightarrow> ('i, 'r, 't) filter_data \<Rightarrow> ('d, 'g) world \<Rightarrow> ('d, 'g) world" where
  "after_find env task data w =
     setPageParams (m_imageId task)
       (Params (fresh_layout env task data w) (fresh_deps env task data w)
          (carried_mode env task data w))
       (log_call (EvFindSplitLine (fresh_single_page env task data w)) w)"

subsection \<open>Reading the log of calls\<close>

text \<open>The calls one invocation adds to the log.\<close>

definition invocation_calls ::
  "('i, 'r, 't, 'd, 'g) collaborators \<Rightarrow> ('i, 'r, 't, 'd, 'g, 'o) task \<Rightarrow> task_status
     \<Rightarrow> ('i, 'r, 't) filter_data \<Rightarrow> ('d, 'g) world \<Rightarrow> ('d, 'g) event list" where
  "invocation_calls env task status data w =
     drop (length (calls w)) (calls (snd (process env task status data w)))"

fun findSplitLine_calls :: "('d, 'g) event list \<Rightarrow> bool list" where
  "findSplitLine_calls [] = []"
| "findSplitLine_calls (EvFindSplitLine single_page # es) =
     single_page # findSplitLine_calls es"
| "findSplitLine_calls (e # es) = findSplitLine_calls es"

fun setPageParams_calls :: "('d, 'g) event list \<Rightarrow> (image_id \<times> ('d, 'g) params) list" where
  "setPageParams_calls [] = []"
| "setPageParams_calls (EvSetPageParams image_id p # es) =
     (image_id, p) # setPageParams_calls es"
| "setPageParams_calls (e # es) = setPageParams_calls es"

fun setLogicalPagesInImage_calls :: "('d, 'g) event list \<Rightarrow> (image_id \<times> int) list" where
  "setLogicalPagesInImage_calls [] = []"
| "setLogicalPagesInImage_calls (EvSetLogicalPagesInImage image_id n # es) =
     (image_id, n) # setLogicalPagesInImage_calls es"
| "setLogicalPagesInImage_calls (e # es) = setLogicalPagesInImage_calls es"

fun dispatched_layouts :: "('d, 'g) event list \<Rightarrow> 'g page_layout list" where
  "dispatched_layouts [] = []"
| "dispatched_layouts (EvNextTaskProcess layout # es) = layout # dispatched_layouts es"
| "dispatched_layouts (e # es) = dispatched_layouts es"

fun ui_updaters :: "('d, 'g) event list \<Rightarrow> ('d, 'g) ui_data list" where
  "ui_updaters [] = []"
| "ui_updaters (EvNewUiUpdater ui_data # es) = ui_data # ui_updaters es"
| "ui_updaters (e # es) = ui_updaters es"

subsection \<open>A concrete stage\<close>

text \<open>
  Images, rotations and thresholds are numbers here; the dependencies of a page are the
  triple the constructor is given, and two of them match when they are equal. An image
  wider than 1000 is advised to hold two pages. The split line is at 0 for a single
  page and in the middle of the image otherwise.
\<close>

definition ex_env :: "(nat, nat, nat, nat \<times> nat \<times> bool, nat) collaborators" where
  "ex_env =
     \<lparr>image_size = (\<lambda>i. (int i, 700)),
      image_dpm = (\<lambda>i. (11811, 11811)),
      adviseNumberOfLogicalPages =
        (\<lambda>metadata r. case metadata of ImageMetadata sz dpm \<Rightarrow> if 1000 < fst sz then 2 else 1),
      Dependencies = (\<lambda>i r single_page. (i, r, single_page)),
      matches = (\<lambda>deps other m. deps = other),
      findSplitLine = (\<lambda>i r t single_page dbg. SplitLayout (if single_page then 0 else i div 2)),
      numSubPages =
        (\<lambda>layout. case layout of NullLayout \<Rightarrow> 0 | SplitLayout g \<Rightarrow> if g = 0 then 1 else 2)\<rparr>"

definition ex_data :: "(nat, nat, nat) filter_data" where
  "ex_data = \<lparr>image_fd = 1200, xform = \<lparr>preRotation = 90\<rparr>, bwThreshold = 128\<rparr>"

text \<open>The last stage of a pipeline, and the same stage with a following one.\<close>

definition ex_task :: "(nat, nat, nat, nat \<times> nat \<times> bool, nat, string) task" where
  "ex_task = \<lparr>m_imageId = 7, m_ptrNextTask = None, m_ptrDbg = False\<rparr>"

definition ex_next ::
  "task_status \<Rightarrow> (nat, nat, nat) filter_data \<Rightarrow> nat page_layout
     \<Rightarrow> error + (nat, nat, nat \<times> nat \<times> bool, nat, string) filter_result" where
  "ex_next status data layout = Inr (OtherResult ''deskewed'')"

definition ex_task_next :: "(nat, nat, nat, nat \<times> nat \<times> bool, nat, string) task" where
  "ex_task_next = \<lparr>m_imageId = 7, m_ptrNextTask = Some ex_next, m_ptrDbg = False\<rparr>"

text \<open>
  Four states of the settings: nothing stored for page 7; a layout stored under the
  dependencies the two-page rule derives; a null layout stored under those
  dependencies; a manual layout stored under other dependencies.
\<close>

definition ex_world_empty :: "(nat \<times> nat \<times> bool, nat) world" where
  "ex_world_empty =
     \<lparr>rules = (\<lambda>image_id. Rule Rule_TWO_PAGES), page_params = Map.empty,
      logical_pages = Map.empty, calls = []\<rparr>"

definition ex_world_hit :: "(nat \<times> nat \<times> bool, nat) world" where
  "ex_world_hit =
     ex_world_empty\<lparr>page_params :=
       [7 \<mapsto> Params (SplitLayout 555) (1200, 90, False) MODE_MANUAL]\<rparr>"

definition ex_world_null :: "(nat \<times> nat \<times> bool, nat) world" where
  "ex_world_null =
     ex_world_empty\<lparr>page_params := [7 \<mapsto> Params NullLayout (1200, 90, False) MODE_AUTO]\<rparr>"

definition ex_world_stale :: "(nat \<times> nat \<times> bool, nat) world" where
  "ex_world_stale =
     ex_world_empty\<lparr>page_params :=
       [7 \<mapsto> Params (SplitLayout 555) (800, 0, True) MODE_MANUAL]\<rparr>"

definition ex_running :: task_status where
  "ex_running = \<lparr>cancelled_at_entry = False, cancelled_after_find = False\<rparr>"

definition ex_cancelled_early :: task_status where
  "ex_cancelled_early = \<lparr>cancelled_at_entry = True, cancelled_after_find = True\<rparr>"

definition ex_cancelled_late :: task_status where
  "ex_cancelled_late = \<lparr>cancelled_at_entry = False, cancelled_after_find = True\<rparr>"

lemmas ex_defs =
  ex_env_def ex_data_def ex_task_def ex_next_def ex_task_next_def ex_world_empty_def
  ex_world_hit_def ex_world_null_def ex_world_stale_def ex_running_def
  ex_cancelled_early_def ex_cancelled_late_def

lemmas derived_defs =
  fresh_single_page_def fresh_deps_def cached_layout_def carried_mode_def
  fresh_layout_def resolved_layout_def resolved_ui_data_def resolve_logical_pages_def
  lookup_params_def getRuleFor_def getPageParams_def new_UiData_def

section \<open>The paths through \<open>process\<close>\<close>

text \<open>
  \<open>process\<close> stops at its first checkpoint, or stops at its second checkpoint with the
  new parameters already stored, or reaches its end, where the page count is recorded and
  the layout handed on.
\<close>

lemma process_cases:
  "process env task status data w =
     (if cancelled_at_entry status then (Inl Cancelled, w)
      else if isNull (cached_layout env task data w) \<and> cancelled_after_find status
      then (Inl Cancelled, after_find env task data w)
      else dispatch task status data (resolved_layout env task data w)
             (resolved_ui_data env task data w)
             (setLogicalPagesInImage (m_imageId task)
                (numSubPages env (resolved_layout env task data w))
                (if isNull (cached_layout env task data w)
                 then after_find env task data w else w)))"
  by (simp add: process_def throwIfCancelled_def find_if_null_def Let_def
      resolved_ui_data_def after_find_def resolved_layout_def cached_layout_def
      carried_mode_def fresh_layout_def fresh_deps_def fresh_single_page_def
      split: prod.splits)

lemma invocation_calls_cases:
  "invocation_calls env task status data w =
     (if cancelled_at_entry status then []
      else (if isNull (cached_layout env task data w)
            then [EvFindSplitLine (fresh_single_page env task data w),
                  EvSetPageParams (m_imageId task)
                    (Params (fresh_layout env task data w) (fresh_deps env task data w)
                       (carried_mode env task data w))]
            else [])
         @ (if isNull (cached_layout env task data w) \<and> cancelled_after_find status
            then []
            else [EvSetLogicalPagesInImage (m_imageId task)
                    (numSubPages env (resolved_layout env task data w)),
                  case m_ptrNextTask task of
                    Some next_process \<Rightarrow> EvNextTaskProcess (resolved_layout env task data w)
                  | None \<Rightarrow> EvNewUiUpdater (resolved_ui_data env task data w)]))"
  by (simp add: invocation_calls_def process_cases after_find_def dispatch_def
      setPageParams_def setLogicalPagesInImage_def log_call_def split: option.splits)

lemma final_world_cases:
  "snd (process env task status data w) =
     (if cancelled_at_entry status then w
      else w\<lparr>page_params :=
               (if isNull (cached_layout env task data w)
                then (page_params w)(m_imageId task \<mapsto>
                       Params (fresh_layout env task data w) (fresh_deps env task data w)
                         (carried_mode env task data w))
                else page_params w),
             logical_pages :=
               (if isNull (cached_layout env task data w) \<and> cancelled_after_find status
                then logical_pages w
                else (logical_pages w)(m_imageId task \<mapsto>
                       numSubPages env (resolved_layout env task data w))),
             calls := calls w @ invocation_calls env task status data w\<rparr>)"
  by (simp add: invocation_calls_cases)
     (simp add: process_cases after_find_def dispatch_def
      setPageParams_def setLogicalPagesInImage_def log_call_def split: option.splits)

lemma outcome_cases:
  "fst (process env task status data w) =
     (if cancelled_at_entry status then Inl Cancelled
      else if isNull (cached_layout env task data w) \<and> cancelled_after_find status
      then Inl Cancelled
      else case m_ptrNextTask task of
             Some next_process \<Rightarrow> next_process status data (resolved_layout env task data w)
           | None \<Rightarrow>
               Inr (UiUpdater (m_ptrDbg task) (image_fd data) (xform data)
                      (resolved_ui_data env task data w)))"
  by (simp add: process_cases dispatch_def split: option.splits)

lemma carried_mode_stored:
  "carried_mode env task data w =
     (case getPageParams w (m_imageId task) of None \<Rightarrow> MODE_AUTO | Some p \<Rightarrow> mode p)"
  by (simp add: carried_mode_def lookup_params_def Let_def split: option.splits)

lemma cached_layout_hit:
  "getPageParams w (m_imageId task) = Some p \<Longrightarrow>
   matches env (fresh_deps env task data w) (dependencies p) (mode p) \<Longrightarrow>
   cached_layout env task data w = pageLayout p"
  by (simp add: cached_layout_def lookup_params_def Let_def)

lemma cached_layout_none:
  "getPageParams w (m_imageId task) = None \<Longrightarrow> cached_layout env task data w = NullLayout"
  by (simp add: cached_layout_def lookup_params_def)

lemma cached_layout_stale:
  "getPageParams w (m_imageId task) = Some p \<Longrightarrow>
   \<not> matches env (fresh_deps env task data w) (dependencies p) (mode p) \<Longrightarrow>
   cached_layout env task data w = NullLayout"
  by (simp add: cached_layout_def lookup_params_def Let_def)

lemma fresh_deps_final:
  "fresh_deps env task data (snd (process env task status data w)) =
     fresh_deps env task data w"
  by (simp add: final_world_cases fresh_deps_def fresh_single_page_def getRuleFor_def)

section \<open>Cancellation\<close>

text \<open>
  C6. When cancellation has been requested before the checkpoint at the entry of
  \<open>process\<close>, the call fails with \<open>Cancelled\<close> and leaves the settings, the page
  sequence and the log of calls as they were: nothing is stored, no page count is
  recorded, nothing is handed to the next stage and no \<open>UiUpdater\<close> is built.
\<close>

theorem C6_cancelled_at_entry:
  "cancelled_at_entry status \<Longrightarrow> process env task status data w = (Inl Cancelled, w)"
  by (simp add: process_def throwIfCancelled_def)

text \<open>C6 on a page with stored parameters.\<close>

theorem C6_cancelled_at_entry_witness:
  "cancelled_at_entry ex_cancelled_early \<and>
   process ex_env ex_task ex_cancelled_early ex_data ex_world_hit = (Inl Cancelled, ex_world_hit)"
  using C6_cancelled_at_entry [of ex_cancelled_early ex_env ex_task ex_data ex_world_hit]
  by (simp add: ex_cancelled_early_def)

text \<open>
  C1 as stated fails: page 7 has no stored parameters, the split line is searched for,
  and cancellation is seen by the checkpoint that follows. The call fails with
  \<open>Cancelled\<close>, but the parameters of page 7 have been stored by then.
\<close>

theorem C1_counterexample:
  "\<not> cancelled_at_entry ex_cancelled_late \<and>
   isNull (cached_layout ex_env ex_task ex_data ex_world_empty) \<and>
   cancelled_after_find ex_cancelled_late \<and>
   fst (process ex_env ex_task ex_cancelled_late ex_data ex_world_empty) = Inl Cancelled \<and>
   page_params ex_world_empty 7 = None \<and>
   page_params (snd (process ex_env ex_task ex_cancelled_late ex_data ex_world_empty)) 7 =
     Some (Params (SplitLayout 600) (1200, 90, False) MODE_AUTO) \<and>
   page_params (snd (process ex_env ex_task ex_cancelled_late ex_data ex_world_empty)) \<noteq>
     page_params ex_world_empty"
proof -
  have a: "page_params ex_world_empty 7 = None"
    by (simp add: ex_world_empty_def)
  have b: "page_params (snd (process ex_env ex_task ex_cancelled_late ex_data ex_world_empty)) 7 =
     Some (Params (SplitLayout 600) (1200, 90, False) MODE_AUTO)"
    by (simp add: final_world_cases derived_defs ex_defs)
  have c: "page_params (snd (process ex_env ex_task ex_cancelled_late ex_data ex_world_empty)) \<noteq>
     page_params ex_world_empty"
    using a b by (metis option.distinct(1))
  have d: "isNull (cached_layout ex_env ex_task ex_data ex_world_empty)"
    by (simp add: derived_defs ex_defs)
  have e: "fst (process ex_env ex_task ex_cancelled_late ex_data ex_world_empty) = Inl Cancelled"
    by (simp add: outcome_cases d) (simp add: ex_defs)
  show ?thesis using a b c d e by (simp add: ex_cancelled_late_def)
qed

text \<open>
  C1, amended. When the layout is null after the lookup of the stored parameters, so that
  the split line is searched for, and cancellation is seen by the checkpoint that
  follows, the call fails with \<open>Cancelled\<close> and the page counts are not touched
  (\<open>setLogicalPagesInImage\<close> is not called, nothing is handed on); the one call of
  \<open>setPageParams\<close> has been made before the checkpoint, and the settings hold the new
  layout for the page.
\<close>

theorem C1_cancelled_after_find:
  assumes "\<not> cancelled_at_entry status"
    and "isNull (cached_layout env task data w)"
    and "cancelled_after_find status"
  shows "fst (process env task status data w) = Inl Cancelled \<and>
    logical_pages (snd (process env task status data w)) = logical_pages w \<and>
    setLogicalPagesInImage_calls (invocation_calls env task status data w) = [] \<and>
    dispatched_layouts (invocation_calls env task status data w) = [] \<and>
    ui_updaters (invocation_calls env task status data w) = [] \<and>
    findSplitLine_calls (invocation_calls env task status data w) =
      [fresh_single_page env task data w] \<and>
    setPageParams_calls (invocation_calls env task status data w) =
      [(m_imageId task,
        Params (fresh_layout env task data w) (fresh_deps env task data w)
          (carried_mode env task data w))] \<and>
    page_params (snd (process env task status data w)) =
      (page_params w)(m_imageId task \<mapsto>
        Params (fresh_layout env task data w) (fresh_deps env task data w)
          (carried_mode env task data w))"
  using assms by (simp add: outcome_cases final_world_cases invocation_calls_cases)

text \<open>The amended C1 on a page whose stored parameters are stale.\<close>

theorem C1_cancelled_after_find_witness:
  "\<not> cancelled_at_entry ex_cancelled_late \<and>
   isNull (cached_layout ex_env ex_task ex_data ex_world_stale) \<and>
   cancelled_after_find ex_cancelled_late \<and>
   fst (process ex_env ex_task ex_cancelled_late ex_data ex_world_stale) = Inl Cancelled \<and>
   logical_pages (snd (process ex_env ex_task ex_cancelled_late ex_data ex_world_stale)) =
     logical_pages ex_world_stale \<and>
   setPageParams_calls (invocation_calls ex_env ex_task ex_cancelled_late ex_data ex_world_stale) =
     [(7, Params (SplitLayout 600) (1200, 90, False) MODE_MANUAL)]"
proof -
  have a: "\<not> cancelled_at_entry ex_cancelled_late" "cancelled_after_find ex_cancelled_late"
    by (simp_all add: ex_cancelled_late_def)
  have b: "isNull (cached_layout ex_env ex_task ex_data ex_world_stale)"
    by (simp add: derived_defs ex_defs)
  have c: "fresh_layout ex_env ex_task ex_data ex_world_stale = SplitLayout 600"
    "fresh_deps ex_env ex_task ex_data ex_world_stale = (1200, 90, False)"
    "carried_mode ex_env ex_task ex_data ex_world_stale = MODE_MANUAL"
    "m_imageId ex_task = 7"
    by (simp_all add: derived_defs ex_defs)
  show ?thesis
    using C1_cancelled_after_find [OF a(1) b a(2)] a b by (simp add: c)
qed

section \<open>The rule of the page\<close>

text \<open>
  The \<open>switch\<close> branch by branch. A single-page rule leaves 1 in
  \<open>num_logical_pages\<close>, an auto-detect rule what \<open>adviseNumberOfLogicalPages\<close>
  returns, and the auto-detected layout of the UI data is assigned by the auto-detect
  branch only.
\<close>

lemma resolve_single_page_rule:
  "resolve_logical_pages env (Rule Rule_SINGLE_PAGE) data pre_rotation ui_data = (1, ui_data)"
  by (simp add: resolve_logical_pages_def)

lemma resolve_auto_detect_rule:
  "fst (resolve_logical_pages env (Rule Rule_AUTO_DETECT) data pre_rotation ui_data) =
     adviseNumberOfLogicalPages env
       (ImageMetadata (image_size env (image_fd data)) (image_dpm env (image_fd data)))
       pre_rotation"
  by (simp add: resolve_logical_pages_def Let_def)

lemma resolve_autoDetectedLayout:
  "ui_autoDetectedLayout (snd (resolve_logical_pages env rule data pre_rotation ui_data)) =
     (if layoutType rule = Rule_AUTO_DETECT
      then Some (if adviseNumberOfLogicalPages env
                      (ImageMetadata (image_size env (image_fd data))
                         (image_dpm env (image_fd data)))
                      pre_rotation = 1
                 then SINGLE_PAGE else TWO_PAGES)
      else ui_autoDetectedLayout ui_data)"
  by (simp add: resolve_logical_pages_def Let_def split: layout_type.splits)

text \<open>
  C4. A two-pages rule is specified to yield the count 2. Its branch assigns \<open>false\<close> to
  the integer \<open>num_logical_pages\<close>, so the count after the \<open>switch\<close> is 0, not 2
  (\<open>single_page\<close>, the only reader of the count, is false either way).
\<close>

theorem C4_two_pages_rule_yields_zero:
  "fst (resolve_logical_pages env (Rule Rule_TWO_PAGES) data pre_rotation ui_data) = 0 \<and>
   fst (resolve_logical_pages env (Rule Rule_TWO_PAGES) data pre_rotation ui_data) \<noteq> 2"
  by (simp add: resolve_logical_pages_def)

section \<open>Stored parameters: reuse and recomputation\<close>

text \<open>
  C2 as stated fails: the parameters stored for page 7 match the dependencies the
  invocation derives, but the stored layout is null. \<open>findSplitLine\<close> is called,
  \<open>setPageParams\<close> is called, and the layout in the \<open>UiUpdater\<close> is the new one.
\<close>

theorem C2_counterexample:
  "getPageParams ex_world_null (m_imageId ex_task) =
     Some (Params NullLayout (1200, 90, False) MODE_AUTO) \<and>
   matches ex_env (fresh_deps ex_env ex_task ex_data ex_world_null) (1200, 90, False) MODE_AUTO \<and>
   findSplitLine_calls (invocation_calls ex_env ex_task ex_running ex_data ex_world_null) = [False] \<and>
   setPageParams_calls (invocation_calls ex_env ex_task ex_running ex_data ex_world_null) =
     [(7, Params (SplitLayout 600) (1200, 90, False) MODE_AUTO)] \<and>
   map ui_pageLayout (ui_updaters (invocation_calls ex_env ex_task ex_running ex_data ex_world_null)) =
     [Some (SplitLayout 600)]"
  by (simp add: invocation_calls_cases) (simp add: derived_defs ex_defs)

text \<open>
  C2, amended. When parameters are stored for the page, their dependencies match the
  freshly derived ones under the stored mode, and the stored layout is not null, then
  \<open>findSplitLine\<close> is not called, \<open>setPageParams\<close> is not called and the stored
  parameters stay as they are; the layout handed to the next stage, or put into the
  \<open>UiUpdater\<close> together with the stored mode, is the stored layout. (An invocation
  cancelled at entry hands nothing on.)
\<close>

theorem C2_cache_hit:
  assumes "getPageParams w (m_imageId task) = Some p"
    and "matches env (fresh_deps env task data w) (dependencies p) (mode p)"
    and "\<not> isNull (pageLayout p)"
  shows "findSplitLine_calls (invocation_calls env task status data w) = [] \<and>
    setPageParams_calls (invocation_calls env task status data w) = [] \<and>
    page_params (snd (process env task status data w)) = page_params w \<and>
    dispatched_layouts (invocation_calls env task status data w) =
      (if cancelled_at_entry status \<or> m_ptrNextTask task = None then [] else [pageLayout p]) \<and>
    map ui_pageLayout (ui_updaters (invocation_calls env task status data w)) =
      (if cancelled_at_entry status \<or> m_ptrNextTask task \<noteq> None then []
       else [Some (pageLayout p)]) \<and>
    map ui_mode (ui_updaters (invocation_calls env task status data w)) =
      (if cancelled_at_entry status \<or> m_ptrNextTask task \<noteq> None then []
       else [Some (mode p)])"
proof -
  have l: "cached_layout env task data w = pageLayout p"
    using assms(1,2) by (rule cached_layout_hit)
  have r: "resolved_layout env task data w = pageLayout p"
    using l assms(3) by (simp add: resolved_layout_def)
  have m: "carried_mode env task data w = mode p"
    using assms(1) by (simp add: carried_mode_stored)
  show ?thesis
    using assms(3)
    by (auto simp add: invocation_calls_cases final_world_cases l r m resolved_ui_data_def
        split: option.splits)
qed

text \<open>
  The amended C2 on a page with a manual layout stored under matching dependencies.
\<close>

theorem C2_cache_hit_witness:
  "getPageParams ex_world_hit (m_imageId ex_task_next) =
     Some (Params (SplitLayout 555) (1200, 90, False) MODE_MANUAL) \<and>
   matches ex_env (fresh_deps ex_env ex_task_next ex_data ex_world_hit) (1200, 90, False) MODE_MANUAL \<and>
   \<not> isNull (SplitLayout (555::nat)) \<and>
   findSplitLine_calls (invocation_calls ex_env ex_task_next ex_running ex_data ex_world_hit) = [] \<and>
   setPageParams_calls (invocation_calls ex_env ex_task_next ex_running ex_data ex_world_hit) = [] \<and>
   dispatched_layouts (invocation_calls ex_env ex_task_next ex_running ex_data ex_world_hit) =
     [SplitLayout 555]"
proof -
  have a: "getPageParams ex_world_hit (m_imageId ex_task_next) =
     Some (Params (SplitLayout 555) (1200, 90, False) MODE_MANUAL)"
    by (simp add: getPageParams_def ex_defs)
  have b: "matches ex_env (fresh_deps ex_env ex_task_next ex_data ex_world_hit)
     (dependencies (Params (SplitLayout 555) (1200, 90, False) MODE_MANUAL))
     (mode (Params (SplitLayout (555::nat)) (1200::nat, 90::nat, False) MODE_MANUAL))"
    by (simp add: derived_defs ex_defs)
  have c: "\<not> isNull (pageLayout (Params (SplitLayout (555::nat)) (1200::nat, 90::nat, False) MODE_MANUAL))"
    by simp
  have d: "\<not> cancelled_at_entry ex_running" "m_ptrNextTask ex_task_next \<noteq> None"
    by (simp_all add: ex_defs)
  show ?thesis
    using C2_cache_hit [OF a b c, where status = ex_running] a b d by simp
qed

text \<open>
  C3 as stated fails: nothing is stored for page 7, and the invocation is cancelled at
  entry. \<open>findSplitLine\<close> is not called and nothing is stored.
\<close>

theorem C3_counterexample:
  "getPageParams ex_world_empty (m_imageId ex_task) = None \<and>
   findSplitLine_calls (invocation_calls ex_env ex_task ex_cancelled_early ex_data ex_world_empty) = [] \<and>
   setPageParams_calls (invocation_calls ex_env ex_task ex_cancelled_early ex_data ex_world_empty) = []"
  by (simp add: invocation_calls_cases) (simp add: getPageParams_def ex_defs)

text \<open>
  C3, amended. When the invocation passes the checkpoint at entry and either nothing is
  stored for the page or the stored dependencies do not match the freshly derived ones,
  \<open>findSplitLine\<close> is called exactly once and \<open>setPageParams\<close> exactly once, with the
  layout \<open>findSplitLine\<close> returned and with dependencies equal to those derived again
  from the same inputs once \<open>process\<close> is over; the settings then hold these
  parameters for the page.
\<close>

theorem C3_cache_miss:
  assumes "\<not> cancelled_at_entry status"
    and "getPageParams w (m_imageId task) = None \<or>
      (\<exists>p. getPageParams w (m_imageId task) = Some p \<and>
           \<not> matches env (fresh_deps env task data w) (dependencies p) (mode p))"
  shows "length (findSplitLine_calls (invocation_calls env task status data w)) = 1 \<and>
    setPageParams_calls (invocation_calls env task status data w) =
      [(m_imageId task,
        Params (fresh_layout env task data w)
          (fresh_deps env task data (snd (process env task status data w)))
          (carried_mode env task data w))] \<and>
    getPageParams (snd (process env task status data w)) (m_imageId task) =
      Some (Params (fresh_layout env task data w)
              (fresh_deps env task data (snd (process env task status data w)))
              (carried_mode env task data w))"
proof -
  have n: "cached_layout env task data w = NullLayout"
    using assms(2) cached_layout_none cached_layout_stale by blast
  show ?thesis
    using assms(1) 
    by (simp add: fresh_deps_final invocation_calls_cases n getPageParams_def
          split: option.splits)
       (simp add: final_world_cases n)
qed

text \<open>
  The amended C3 on a page whose stored parameters are stale.
\<close>

theorem C3_cache_miss_witness:
  "\<not> cancelled_at_entry ex_running \<and>
   getPageParams ex_world_stale (m_imageId ex_task) =
     Some (Params (SplitLayout 555) (800, 0, True) MODE_MANUAL) \<and>
   \<not> matches ex_env (fresh_deps ex_env ex_task ex_data ex_world_stale) (800, 0, True) MODE_MANUAL \<and>
   length (findSplitLine_calls (invocation_calls ex_env ex_task ex_running ex_data ex_world_stale)) = 1 \<and>
   setPageParams_calls (invocation_calls ex_env ex_task ex_running ex_data ex_world_stale) =
     [(7, Params (SplitLayout 600) (1200, 90, False) MODE_MANUAL)]"
proof -
  have a: "\<not> cancelled_at_entry ex_running"
    by (simp add: ex_defs)
  have b: "getPageParams ex_world_stale (m_imageId ex_task) =
     Some (Params (SplitLayout 555) (800, 0, True) MODE_MANUAL)"
    by (simp add: getPageParams_def ex_defs)
  have c: "\<not> matches ex_env (fresh_deps ex_env ex_task ex_data ex_world_stale) (800, 0, True) MODE_MANUAL"
    by (simp add: derived_defs ex_defs)
  have d: "getPageParams ex_world_stale (m_imageId ex_task) = None \<or>
      (\<exists>p. getPageParams ex_world_stale (m_imageId ex_task) = Some p \<and>
           \<not> matches ex_env (fresh_deps ex_env ex_task ex_data ex_world_stale) (dependencies p) (mode p))"
    using b c by simp
  have e: "fresh_layout ex_env ex_task ex_data ex_world_stale = SplitLayout 600"
    "fresh_deps ex_env ex_task ex_data ex_world_stale = (1200, 90, False)"
    "carried_mode ex_env ex_task ex_data ex_world_stale = MODE_MANUAL"
    "m_imageId ex_task = 7"
    by (simp_all add: derived_defs ex_defs)
  show ?thesis
    using C3_cache_miss [OF a d] a b c by (simp add: fresh_deps_final e)
qed

text \<open>
  C10 as stated fails: matching parameters with a null layout are stored for page 7,
  and the invocation is cancelled at entry. \<open>findSplitLine\<close> is not called and the
  stored parameters are not overwritten.
\<close>

theorem C10_counterexample:
  "getPageParams ex_world_null (m_imageId ex_task) =
     Some (Params NullLayout (1200, 90, False) MODE_AUTO) \<and>
   matches ex_env (fresh_deps ex_env ex_task ex_data ex_world_null) (1200, 90, False) MODE_AUTO \<and>
   findSplitLine_calls (invocation_calls ex_env ex_task ex_cancelled_early ex_data ex_world_null) = [] \<and>
   snd (process ex_env ex_task ex_cancelled_early ex_data ex_world_null) = ex_world_null"
  by (simp add: invocation_calls_cases final_world_cases) (simp add: derived_defs ex_defs)

text \<open>
  C10, amended. When the invocation passes the checkpoint at entry and the parameters
  stored for the page match the freshly derived dependencies under the stored mode but
  hold a null layout, the stored layout is not reused: \<open>findSplitLine\<close> is called and
  the stored parameters are overwritten with the new layout. Reuse needs both matching
  dependencies and a stored layout that is not null.
\<close>

theorem C10_null_stored_layout:
  assumes "\<not> cancelled_at_entry status"
    and "getPageParams w (m_imageId task) = Some p"
    and "matches env (fresh_deps env task data w) (dependencies p) (mode p)"
    and "isNull (pageLayout p)"
  shows "findSplitLine_calls (invocation_calls env task status data w) =
      [fresh_single_page env task data w] \<and>
    setPageParams_calls (invocation_calls env task status data w) =
      [(m_imageId task,
        Params (fresh_layout env task data w) (fresh_deps env task data w) (mode p))] \<and>
    getPageParams (snd (process env task status data w)) (m_imageId task) =
      Some (Params (fresh_layout env task data w) (fresh_deps env task data w) (mode p))"
proof -
  have l: "cached_layout env task data w = pageLayout p"
    using assms(2,3) by (rule cached_layout_hit)
  have m: "carried_mode env task data w = mode p"
    using assms(2) by (simp add: carried_mode_stored)
  show ?thesis
    using assms(1,4)
    by (simp add: invocation_calls_cases l m getPageParams_def split: option.splits)
       (simp add: final_world_cases l m)
qed

text \<open>
  The amended C10 on page 7 with a null layout stored under matching dependencies.
\<close>

theorem C10_null_stored_layout_witness:
  "\<not> cancelled_at_entry ex_running \<and>
   getPageParams ex_world_null (m_imageId ex_task_next) =
     Some (Params NullLayout (1200, 90, False) MODE_AUTO) \<and>
   matches ex_env (fresh_deps ex_env ex_task_next ex_data ex_world_null) (1200, 90, False) MODE_AUTO \<and>
   isNull (NullLayout :: nat page_layout) \<and>
   findSplitLine_calls (invocation_calls ex_env ex_task_next ex_running ex_data ex_world_null) = [False] \<and>
   getPageParams (snd (process ex_env ex_task_next ex_running ex_data ex_world_null)) 7 =
     Some (Params (SplitLayout 600) (1200, 90, False) MODE_AUTO)"
proof -
  have a: "\<not> cancelled_at_entry ex_running"
    by (simp add: ex_defs)
  have b: "getPageParams ex_world_null (m_imageId ex_task_next) =
     Some (Params NullLayout (1200, 90, False) MODE_AUTO)"
    by (simp add: getPageParams_def ex_defs)
  have c: "matches ex_env (fresh_deps ex_env ex_task_next ex_data ex_world_null)
     (dependencies (Params (NullLayout :: nat page_layout) (1200::nat, 90::nat, False) MODE_AUTO))
     (mode (Params (NullLayout :: nat page_layout) (1200::nat, 90::nat, False) MODE_AUTO))"
    by (simp add: derived_defs ex_defs)
  have d: "isNull (pageLayout (Params (NullLayout :: nat page_layout) (1200::nat, 90::nat, False) MODE_AUTO))"
    by simp
  have e: "fresh_layout ex_env ex_task_next ex_data ex_world_null = SplitLayout 600"
    "fresh_deps ex_env ex_task_next ex_data ex_world_null = (1200, 90, False)"
    "fresh_single_page ex_env ex_task_next ex_data ex_world_null = False"
    "m_imageId ex_task_next = 7"
    by (simp_all add: derived_defs ex_defs)
  show ?thesis
    using C10_null_stored_layout [OF a b c d] a b c by (simp add: e)
qed

text \<open>
  C9. On the path where the split line is searched for (the invocation has passed the
  checkpoint at entry and the layout is null after the lookup), the mode stored with the
  new parameters, and the mode set in the UI data, is the mode of the parameters stored
  before, whether their dependencies matched or not, and \<open>MODE_AUTO\<close> when nothing
  was stored. The UI data reaches a \<open>UiUpdater\<close> when the second checkpoint passes and
  there is no next stage.
\<close>

theorem C9_mode_on_miss:
  assumes "\<not> cancelled_at_entry status"
    and "isNull (cached_layout env task data w)"
  shows "ui_mode (resolved_ui_data env task data w) =
      Some (case getPageParams w (m_imageId task) of None \<Rightarrow> MODE_AUTO | Some p \<Rightarrow> mode p) \<and>
    map (\<lambda>c. mode (snd c)) (setPageParams_calls (invocation_calls env task status data w)) =
      [case getPageParams w (m_imageId task) of None \<Rightarrow> MODE_AUTO | Some p \<Rightarrow> mode p] \<and>
    map_option mode (getPageParams (snd (process env task status data w)) (m_imageId task)) =
      Some (case getPageParams w (m_imageId task) of None \<Rightarrow> MODE_AUTO | Some p \<Rightarrow> mode p) \<and>
    map ui_mode (ui_updaters (invocation_calls env task status data w)) =
      (if cancelled_after_find status \<or> m_ptrNextTask task \<noteq> None then []
       else [Some (case getPageParams w (m_imageId task) of
                     None \<Rightarrow> MODE_AUTO | Some p \<Rightarrow> mode p)])"
proof -
  have m: "carried_mode env task data w =
      (case getPageParams w (m_imageId task) of None \<Rightarrow> MODE_AUTO | Some p \<Rightarrow> mode p)"
    by (rule carried_mode_stored)
  have s: "getPageParams (snd (process env task status data w)) (m_imageId task) =
      Some (Params (fresh_layout env task data w) (fresh_deps env task data w)
              (carried_mode env task data w))"
    using assms by (simp add: getPageParams_def final_world_cases)
  have c: "invocation_calls env task status data w =
      [EvFindSplitLine (fresh_single_page env task data w),
       EvSetPageParams (m_imageId task)
         (Params (fresh_layout env task data w) (fresh_deps env task data w)
            (carried_mode env task data w))]
      @ (if cancelled_after_find status then []
         else [EvSetLogicalPagesInImage (m_imageId task)
                 (numSubPages env (resolved_layout env task data w)),
               case m_ptrNextTask task of
                 Some next_process \<Rightarrow> EvNextTaskProcess (resolved_layout env task data w)
               | None \<Rightarrow> EvNewUiUpdater (resolved_ui_data env task data w)])"
    using assms by (simp add: invocation_calls_cases)
  have u: "ui_mode (resolved_ui_data env task data w) = Some (carried_mode env task data w)"
    by (simp add: resolved_ui_data_def)
  show ?thesis
    unfolding s c using m u by (auto split: option.splits)
qed

text \<open>
  C9 on a page with stale manual parameters, and on a page with nothing stored.
\<close>

theorem C9_mode_on_miss_witness:
  "(\<not> cancelled_at_entry ex_running \<and>
    isNull (cached_layout ex_env ex_task ex_data ex_world_stale) \<and>
    getPageParams ex_world_stale (m_imageId ex_task) =
      Some (Params (SplitLayout 555) (800, 0, True) MODE_MANUAL) \<and>
    map_option mode
      (getPageParams (snd (process ex_env ex_task ex_running ex_data ex_world_stale))
         (m_imageId ex_task)) = Some MODE_MANUAL \<and>
    map ui_mode (ui_updaters (invocation_calls ex_env ex_task ex_running ex_data ex_world_stale)) =
      [Some MODE_MANUAL]) \<and>
   (\<not> cancelled_at_entry ex_running \<and>
    isNull (cached_layout ex_env ex_task ex_data ex_world_empty) \<and>
    getPageParams ex_world_empty (m_imageId ex_task) = None \<and>
    map_option mode
      (getPageParams (snd (process ex_env ex_task ex_running ex_data ex_world_empty))
         (m_imageId ex_task)) = Some MODE_AUTO \<and>
    map ui_mode (ui_updaters (invocation_calls ex_env ex_task ex_running ex_data ex_world_empty)) =
      [Some MODE_AUTO])"
proof -
  have a: "\<not> cancelled_at_entry ex_running" "\<not> cancelled_after_find ex_running"
    "m_ptrNextTask ex_task = None"
    by (simp_all add: ex_defs)
  have b: "isNull (cached_layout ex_env ex_task ex_data ex_world_stale)"
    "isNull (cached_layout ex_env ex_task ex_data ex_world_empty)"
    by (simp_all add: derived_defs ex_defs)
  have c: "getPageParams ex_world_stale (m_imageId ex_task) =
      Some (Params (SplitLayout 555) (800, 0, True) MODE_MANUAL)"
    "getPageParams ex_world_empty (m_imageId ex_task) = None"
    by (simp_all add: getPageParams_def ex_defs)
  show ?thesis
    using C9_mode_on_miss [OF a(1) b(1)] C9_mode_on_miss [OF a(1) b(2)] a b
    by (simp add: c)
qed

section \<open>The page count\<close>

text \<open>
  C5 as stated fails: on the path where the split line is searched for, an invocation
  cancelled at the checkpoint after the search never calls \<open>setLogicalPagesInImage\<close>;
  neither does an invocation cancelled at entry.
\<close>

theorem C5_counterexample:
  "isNull (cached_layout ex_env ex_task ex_data ex_world_empty) \<and>
   setLogicalPagesInImage_calls
     (invocation_calls ex_env ex_task ex_cancelled_late ex_data ex_world_empty) = [] \<and>
   logical_pages (snd (process ex_env ex_task ex_cancelled_late ex_data ex_world_empty)) 7 = None \<and>
   setLogicalPagesInImage_calls
     (invocation_calls ex_env ex_task ex_cancelled_early ex_data ex_world_hit) = []"
  by (simp add: invocation_calls_cases final_world_cases) (simp add: derived_defs ex_defs)

text \<open>
  C5, amended. An invocation that is stopped by neither checkpoint calls
  \<open>setLogicalPagesInImage\<close> exactly once, whether the stored layout is reused or a new
  one is computed, with the identity of the page and \<open>numSubPages\<close> of the layout that
  is handed on.
\<close>

theorem C5_page_count_recorded:
  assumes "\<not> cancelled_at_entry status"
    and "\<not> (isNull (cached_layout env task data w) \<and> cancelled_after_find status)"
  shows "setLogicalPagesInImage_calls (invocation_calls env task status data w) =
      [(m_imageId task, numSubPages env (resolved_layout env task data w))] \<and>
    logical_pages (snd (process env task status data w)) =
      (logical_pages w)(m_imageId task \<mapsto> numSubPages env (resolved_layout env task data w)) \<and>
    (case m_ptrNextTask task of
       Some next_process \<Rightarrow>
         dispatched_layouts (invocation_calls env task status data w) =
           [resolved_layout env task data w]
     | None \<Rightarrow>
         map ui_pageLayout (ui_updaters (invocation_calls env task status data w)) =
           [Some (resolved_layout env task data w)])"
  using assms
  by (auto simp add: invocation_calls_cases final_world_cases resolved_ui_data_def
      split: option.splits)

text \<open>
  The amended C5 with a reused layout, and with a newly computed one.
\<close>

theorem C5_page_count_recorded_witness:
  "(\<not> cancelled_at_entry ex_running \<and>
    \<not> (isNull (cached_layout ex_env ex_task ex_data ex_world_hit) \<and>
       cancelled_after_find ex_running) \<and>
    setLogicalPagesInImage_calls
      (invocation_calls ex_env ex_task ex_running ex_data ex_world_hit) = [(7, 2)]) \<and>
   (\<not> cancelled_at_entry ex_running \<and>
    \<not> (isNull (cached_layout ex_env ex_task ex_data ex_world_empty) \<and>
       cancelled_after_find ex_running) \<and>
    setLogicalPagesInImage_calls
      (invocation_calls ex_env ex_task ex_running ex_data ex_world_empty) = [(7, 2)])"
proof -
  have a: "\<not> cancelled_at_entry ex_running" "\<not> cancelled_after_find ex_running"
    by (simp_all add: ex_defs)
  have b: "\<not> (isNull (cached_layout ex_env ex_task ex_data ex_world_hit) \<and>
       cancelled_after_find ex_running)"
    "\<not> (isNull (cached_layout ex_env ex_task ex_data ex_world_empty) \<and>
       cancelled_after_find ex_running)"
    using a by simp_all
  have c: "numSubPages ex_env (resolved_layout ex_env ex_task ex_data ex_world_hit) = 2"
    "numSubPages ex_env (resolved_layout ex_env ex_task ex_data ex_world_empty) = 2"
    "m_imageId ex_task = 7"
    by (simp_all add: derived_defs ex_defs)
  show ?thesis
    using C5_page_count_recorded [OF a(1) b(1)] C5_page_count_recorded [OF a(1) b(2)] a
    by (simp add: c)
qed

section \<open>The end of \<open>process\<close>\<close>

text \<open>
  C7. When \<open>process\<close> returns a result: with a next stage, the result is what the
  \<open>process\<close> of the next stage returned for the resolved layout, and no \<open>UiUpdater\<close>
  is built; without one, exactly one \<open>UiUpdater\<close> is built, it is the result, and it
  carries the resolved layout, while nothing is handed to a next stage.
\<close>

theorem C7_dispatch_exclusive:
  assumes "fst (process env task status data w) = Inr res"
  shows "case m_ptrNextTask task of
       Some next_process \<Rightarrow>
         fst (process env task status data w) =
           next_process status data (resolved_layout env task data w) \<and>
         dispatched_layouts (invocation_calls env task status data w) =
           [resolved_layout env task data w] \<and>
         ui_updaters (invocation_calls env task status data w) = []
     | None \<Rightarrow>
         (\<exists>ui_data.
            res = UiUpdater (m_ptrDbg task) (image_fd data) (xform data) ui_data \<and>
            ui_updaters (invocation_calls env task status data w) = [ui_data] \<and>
            ui_pageLayout ui_data = Some (resolved_layout env task data w)) \<and>
         dispatched_layouts (invocation_calls env task status data w) = []"
proof -
  have a: "\<not> cancelled_at_entry status"
    using assms by (auto simp add: outcome_cases)
  have b: "\<not> (isNull (cached_layout env task data w) \<and> cancelled_after_find status)"
    using assms a by (auto simp add: outcome_cases)
  show ?thesis
    using assms a b
    by (auto simp add: outcome_cases invocation_calls_cases resolved_ui_data_def
        split: option.splits)
qed

text \<open>
  C7 with a next stage and without one.
\<close>

theorem C7_dispatch_exclusive_witness:
  "(fst (process ex_env ex_task_next ex_running ex_data ex_world_hit) =
      Inr (OtherResult ''deskewed'') \<and>
    dispatched_layouts (invocation_calls ex_env ex_task_next ex_running ex_data ex_world_hit) =
      [SplitLayout 555] \<and>
    ui_updaters (invocation_calls ex_env ex_task_next ex_running ex_data ex_world_hit) = []) \<and>
   (fst (process ex_env ex_task ex_running ex_data ex_world_hit) =
      Inr (UiUpdater False 1200 \<lparr>preRotation = 90\<rparr>
             \<lparr>ui_autoDetectedLayout = None, ui_dependencies = Some (1200, 90, False),
              ui_pageLayout = Some (SplitLayout 555), ui_mode = Some MODE_MANUAL\<rparr>) \<and>
    length (ui_updaters (invocation_calls ex_env ex_task ex_running ex_data ex_world_hit)) = 1 \<and>
    dispatched_layouts (invocation_calls ex_env ex_task ex_running ex_data ex_world_hit) = [])"
proof -
  have a: "fst (process ex_env ex_task_next ex_running ex_data ex_world_hit) =
      Inr (OtherResult ''deskewed'')"
    by (simp add: outcome_cases) (simp add: derived_defs ex_defs)
  have b: "fst (process ex_env ex_task ex_running ex_data ex_world_hit) =
      Inr (UiUpdater False 1200 \<lparr>preRotation = 90\<rparr>
             \<lparr>ui_autoDetectedLayout = None, ui_dependencies = Some (1200, 90, False),
              ui_pageLayout = Some (SplitLayout 555), ui_mode = Some MODE_MANUAL\<rparr>)"
    by (simp add: outcome_cases) (simp add: derived_defs ex_defs)
  have c: "resolved_layout ex_env ex_task_next ex_data ex_world_hit = SplitLayout 555"
    "m_ptrNextTask ex_task_next = Some ex_next" "m_ptrNextTask ex_task = None"
    by (simp_all add: derived_defs ex_defs)
  show ?thesis
    using C7_dispatch_exclusive [OF a] C7_dispatch_exclusive [OF b] a b
    by (auto simp add: c)
qed

text \<open>
  C8. If \<open>findSplitLine\<close> never returns a null layout, then whenever \<open>process\<close>
  returns a result, the one layout handed to the next stage or put into the
  \<open>UiUpdater\<close> is not null; a layout that is null after the lookup is replaced by the
  call of \<open>findSplitLine\<close>, which comes first among the calls of the invocation.
\<close>

theorem C8_never_null:
  assumes "\<forall>i r t single_page dbg. \<not> isNull (findSplitLine env i r t single_page dbg)"
    and "fst (process env task status data w) = Inr res"
  shows "(\<forall>layout \<in> set (dispatched_layouts (invocation_calls env task status data w)).
        \<not> isNull layout) \<and>
    (\<forall>ui_data \<in> set (ui_updaters (invocation_calls env task status data w)).
        \<exists>layout. ui_pageLayout ui_data = Some layout \<and> \<not> isNull layout) \<and>
    length (dispatched_layouts (invocation_calls env task status data w)) +
      length (ui_updaters (invocation_calls env task status data w)) = 1 \<and>
    (isNull (cached_layout env task data w) \<longrightarrow>
       take 1 (invocation_calls env task status data w) =
         [EvFindSplitLine (fresh_single_page env task data w)])"
proof -
  have a: "\<not> cancelled_at_entry status"
    using assms(2) by (auto simp add: outcome_cases)
  have b: "\<not> (isNull (cached_layout env task data w) \<and> cancelled_after_find status)"
    using assms(2) a by (auto simp add: outcome_cases)
  have c: "\<not> isNull (resolved_layout env task data w)"
    using assms(1) by (simp add: resolved_layout_def fresh_layout_def)
  show ?thesis
    using a b c
    by (auto simp add: invocation_calls_cases resolved_ui_data_def split: option.splits)
qed

text \<open>
  C8 on page 7 with a null layout stored under matching dependencies.
\<close>

theorem C8_never_null_witness:
  "(\<forall>i r t single_page dbg. \<not> isNull (findSplitLine ex_env i r t single_page dbg)) \<and>
   fst (process ex_env ex_task_next ex_running ex_data ex_world_null) =
     Inr (OtherResult ''deskewed'') \<and>
   isNull (cached_layout ex_env ex_task_next ex_data ex_world_null) \<and>
   dispatched_layouts (invocation_calls ex_env ex_task_next ex_running ex_data ex_world_null) =
     [SplitLayout 600] \<and>
   \<not> isNull (SplitLayout (600::nat)) \<and>
   length (dispatched_layouts
       (invocation_calls ex_env ex_task_next ex_running ex_data ex_world_null)) +
     length (ui_updaters
       (invocation_calls ex_env ex_task_next ex_running ex_data ex_world_null)) = 1 \<and>
   take 1 (invocation_calls ex_env ex_task_next ex_running ex_data ex_world_null) =
     [EvFindSplitLine False]"
proof -
  have a: "\<forall>i r t single_page dbg. \<not> isNull (findSplitLine ex_env i r t single_page dbg)"
    by (simp add: ex_env_def)
  have b: "fst (process ex_env ex_task_next ex_running ex_data ex_world_null) =
     Inr (OtherResult ''deskewed'')"
    by (simp add: outcome_cases) (simp add: derived_defs ex_defs)
  have c: "isNull (cached_layout ex_env ex_task_next ex_data ex_world_null)"
    by (simp add: derived_defs ex_defs)
  have d: "dispatched_layouts (invocation_calls ex_env ex_task_next ex_running ex_data ex_world_null) =
     [SplitLayout 600]"
    by (simp add: invocation_calls_cases) (simp add: derived_defs ex_defs)
  have e: "fresh_single_page ex_env ex_task_next ex_data ex_world_null = False"
    by (simp add: derived_defs ex_defs)
  show ?thesis
    using C8_never_null [OF a b] a b c d e by simp
qed

end
